theory Spec2Isabelle
  imports Complex_Main
begin

section \<open>Python values\<close>

text \<open>
  The trait constructors of \<^verbatim>\<open>smithy_aws_core/traits.py\<close> take a loosely typed
  \<^verbatim>\<open>DocumentValue | DynamicTrait\<close>. A \<^verbatim>\<open>DocumentValue\<close> is one of: a mapping from
  strings to document values, a sequence of document values, \<^verbatim>\<open>str\<close>, \<^verbatim>\<open>int\<close>,
  \<^verbatim>\<open>float\<close>, \<^verbatim>\<open>Decimal\<close>, \<^verbatim>\<open>bool\<close>, \<^verbatim>\<open>None\<close>, \<^verbatim>\<open>bytes\<close> or a
  \<^verbatim>\<open>datetime\<close>. Lists and tuples are both sequences and are kept apart, because
  the constructor stores tuples. A dictionary is an association list read with
  \<^const>\<open>map_of\<close>; a \<^verbatim>\<open>str\<close> is a \<^typ>\<open>string\<close>, one \<^typ>\<open>char\<close> per code point.
  Of a float, a decimal and a timestamp the code below only asks whether they are
  truthy and which abstract classes they belong to.
\<close>

datatype pyval =
    PNone
  | PBool bool
  | PInt int
  | PFloat real
  | PDecimal real
  | PStr string
  | PBytes "nat list"
  | PTimestamp int
  | PList "pyval list"
  | PTuple "pyval list"
  | PDict "(string \<times> pyval) list"

datatype py_error =
    AssertionError
  | KeyError string
  | TypeError
  | DiscriminatorError string

text \<open>Truth value testing, as \<^verbatim>\<open>or\<close> and \<^verbatim>\<open>not\<close> apply it.\<close>

fun truthy :: "pyval \<Rightarrow> bool" where
  "truthy PNone = False"
| "truthy (PBool b) = b"
| "truthy (PInt i) = (i \<noteq> 0)"
| "truthy (PFloat x) = (x \<noteq> 0)"
| "truthy (PDecimal x) = (x \<noteq> 0)"
| "truthy (PStr s) = (s \<noteq> [])"
| "truthy (PBytes bs) = (bs \<noteq> [])"
| "truthy (PTimestamp t) = True"
| "truthy (PList xs) = (xs \<noteq> [])"
| "truthy (PTuple xs) = (xs \<noteq> [])"
| "truthy (PDict kvs) = (kvs \<noteq> [])"

text \<open>\<^verbatim>\<open>isinstance(v, Sequence)\<close> and \<^verbatim>\<open>isinstance(v, str)\<close>. A \<^verbatim>\<open>str\<close> and a
  \<^verbatim>\<open>bytes\<close> are registered sequences. \<^verbatim>\<open>isinstance(v, Mapping)\<close> holds of a
  dictionary only and is written as a case distinction on \<^const>\<open>PDict\<close>.\<close>

fun is_Sequence :: "pyval \<Rightarrow> bool" where
  "is_Sequence (PStr s) = True"
| "is_Sequence (PBytes bs) = True"
| "is_Sequence (PList xs) = True"
| "is_Sequence (PTuple xs) = True"
| "is_Sequence v = False"

fun is_str :: "pyval \<Rightarrow> bool" where
  "is_str (PStr s) = True"
| "is_str v = False"

text \<open>The elements a \<^verbatim>\<open>for\<close> loop or \<^verbatim>\<open>tuple(...)\<close> draws from a sequence: a string
  yields its characters as strings of length one, a \<^verbatim>\<open>bytes\<close> yields integers.\<close>

fun iter_seq :: "pyval \<Rightarrow> pyval list" where
  "iter_seq (PStr s) = map (\<lambda>c. PStr [c]) s"
| "iter_seq (PBytes bs) = map (\<lambda>b. PInt (int b)) bs"
| "iter_seq (PList xs) = xs"
| "iter_seq (PTuple xs) = xs"
| "iter_seq v = []"

text \<open>\<^verbatim>\<open>d.get(key, default)\<close> on a dictionary.\<close>

definition dict_get :: "(string \<times> pyval) list \<Rightarrow> string \<Rightarrow> pyval \<Rightarrow> pyval" where
  "dict_get kvs k d = (case map_of kvs k of None \<Rightarrow> d | Some v \<Rightarrow> v)"

section \<open>Shape identifiers and traits\<close>

record ShapeID =
  namespace :: string
  name :: string

record DynamicTrait =
  dynamic_id :: ShapeID
  dynamic_document_value :: pyval

datatype trait_arg = Doc pyval | Dyn DynamicTrait

record Trait =
  document_value :: pyval

record RestJson1Trait = Trait +
  http :: pyval
  event_stream_http :: pyval

type_synonym SigV4Trait = Trait

text \<open>
  Modelled from the spec: \<^verbatim>\<open>Trait.__init__\<close> of \<^verbatim>\<open>smithy_core.traits\<close>, the base
  constructor both trait classes run, is not in the source excerpt. The spec says a
  trait is constructed from a raw document value that stays its backing value, and names
  no failure of the base step; the field is typed as a document value, so a
  \<^verbatim>\<open>DynamicTrait\<close> argument contributes the value it carries.
\<close>

definition Trait_init :: "trait_arg \<Rightarrow> py_error + Trait" where
  "Trait_init v =
     (case v of
        Doc d \<Rightarrow> Inr \<lparr>document_value = d\<rparr>
      | Dyn t \<Rightarrow> Inr \<lparr>document_value = dynamic_document_value t\<rparr>)"

subsection \<open>RestJson1Trait\<close>

text \<open>\<^verbatim>\<open>value or {}\<close>: a \<^verbatim>\<open>DynamicTrait\<close> instance is always truthy.\<close>

definition or_empty_dict :: "trait_arg \<Rightarrow> trait_arg" where
  "or_empty_dict v =
     (case v of
        Doc d \<Rightarrow> if truthy d then Doc d else Doc (PDict [])
      | Dyn t \<Rightarrow> Dyn t)"

text \<open>The loop \<^verbatim>\<open>for val in xs: assert isinstance(val, str)\<close>.\<close>

fun assert_all_str :: "pyval list \<Rightarrow> py_error + unit" where
  "assert_all_str [] = Inr ()"
| "assert_all_str (v # vs) = (if is_str v then assert_all_str vs else Inl AssertionError)"

text \<open>
  \<^verbatim>\<open>RestJson1Trait.__init__\<close>, statement by statement, with the assertions enabled.
  Every \<^verbatim>\<open>assert\<close> that fails ends the construction with \<^const>\<open>AssertionError\<close>.
  The first assertion is on \<^verbatim>\<open>value or {}\<close>, the argument itself: a
  \<^verbatim>\<open>DynamicTrait\<close> is no mapping and fails it.
\<close>

definition RestJson1Trait_init :: "trait_arg \<Rightarrow> py_error + RestJson1Trait" where
  "RestJson1Trait_init v =
     (case Trait_init v of
        Inl e \<Rightarrow> Inl e
      | Inr base \<Rightarrow>
          (case or_empty_dict v of
             Dyn t \<Rightarrow> Inl AssertionError
           | Doc dv \<Rightarrow>
               (case dv of
                  PDict kvs \<Rightarrow>
                    (let http_versions = dict_get kvs ''http'' (PList [PStr ''http/1.1'']) in
                     if \<not> is_Sequence http_versions then Inl AssertionError
                     else
                       (case assert_all_str (iter_seq http_versions) of
                          Inl e \<Rightarrow> Inl e
                        | Inr u \<Rightarrow>
                            (let self_http = PTuple (iter_seq http_versions);
                                 event_stream_http_versions = dict_get kvs ''eventStreamHttp'' PNone
                             in
                               if \<not> truthy event_stream_http_versions then
                                 Inr \<lparr>document_value = document_value base, http = self_http,
                                      event_stream_http = self_http\<rparr>
                               else if \<not> is_Sequence event_stream_http_versions then
                                 Inl AssertionError
                               else
                                 (case assert_all_str (iter_seq event_stream_http_versions) of
                                    Inl e \<Rightarrow> Inl e
                                  | Inr u' \<Rightarrow>
                                      Inr \<lparr>document_value = document_value base,
                                           http = self_http,
                                           event_stream_http =
                                             PTuple (iter_seq event_stream_http_versions)\<rparr>))))
                | _ \<Rightarrow> Inl AssertionError)))"

text \<open>A sequence all of whose elements are strings: what the two validation loops
  accept.\<close>

definition str_seq :: "pyval \<Rightarrow> bool" where
  "str_seq v = (is_Sequence v \<and> list_all is_str (iter_seq v))"

subsection \<open>SigV4Trait\<close>

text \<open>\<^verbatim>\<open>SigV4Trait.__post_init__\<close>: the backing value is a mapping (first assertion)
  and its \<^verbatim>\<open>"name"\<close> entry is a string (second assertion). Subscripting a mapping
  that has no such key raises \<^verbatim>\<open>KeyError\<close> before the assertion is evaluated.\<close>

definition SigV4Trait_post_init :: "SigV4Trait \<Rightarrow> py_error + unit" where
  "SigV4Trait_post_init self =
     (case document_value self of
        PDict kvs \<Rightarrow>
          (case map_of kvs ''name'' of
             None \<Rightarrow> Inl (KeyError ''name'')
           | Some v \<Rightarrow> if is_str v then Inr () else Inl AssertionError)
      | _ \<Rightarrow> Inl AssertionError)"

text \<open>
  Construction of a \<^verbatim>\<open>SigV4Trait\<close>. The class is declared with
  \<^verbatim>\<open>@dataclass(init=False, frozen=True)\<close> and defines no \<^verbatim>\<open>__init__\<close>: the decorator
  generates no constructor, and only a generated constructor calls \<^verbatim>\<open>__post_init__\<close>.
  What runs is the inherited base constructor alone; the validation above is never
  reached.
\<close>

definition SigV4Trait_init :: "trait_arg \<Rightarrow> py_error + SigV4Trait" where
  "SigV4Trait_init v = Trait_init v"

text \<open>The property \<^verbatim>\<open>name\<close>: \<^verbatim>\<open>self.document_value["name"]\<close>, read again at
  every access. Subscripting a value that is no mapping with a string raises
  \<^verbatim>\<open>TypeError\<close>.\<close>

definition SigV4Trait_name :: "SigV4Trait \<Rightarrow> py_error + pyval" where
  "SigV4Trait_name self =
     (case document_value self of
        PDict kvs \<Rightarrow>
          (case map_of kvs ''name'' of
             None \<Rightarrow> Inl (KeyError ''name'')
           | Some v \<Rightarrow> Inr v)
      | _ \<Rightarrow> Inl TypeError)"

subsection \<open>Methods the dataclass decorator generates\<close>









section \<open>The protocol: error identification and discriminators\<close>

subsection \<open>HTTP responses and operations\<close>

record Field =
  fld_name :: string
  fld_values :: "string list"

text \<open>
  Modelled from the spec: the \<^verbatim>\<open>Fields\<close> collection of an HTTP response is not in the
  source excerpt. The spec describes it as an ordered mapping from field names, compared
  without regard to case, to fields of string values; \<^verbatim>\<open>key in fields\<close> and
  \<^verbatim>\<open>fields[key]\<close> find the first field whose name matches.
\<close>

definition lower_char :: "char \<Rightarrow> char" where
  "lower_char c =
     (case map_of (zip ''ABCDEFGHIJKLMNOPQRSTUVWXYZ'' ''abcdefghijklmnopqrstuvwxyz'') c of
        None \<Rightarrow> c
      | Some l \<Rightarrow> l)"

definition normalize_field_name :: "string \<Rightarrow> string" where
  "normalize_field_name s = map lower_char s"

definition Fields_lookup :: "Field list \<Rightarrow> string \<Rightarrow> Field option" where
  "Fields_lookup fs k =
     find (\<lambda>f. normalize_field_name (fld_name f) = normalize_field_name k) fs"

definition Fields_contains :: "Field list \<Rightarrow> string \<Rightarrow> bool" where
  "Fields_contains fs k = (Fields_lookup fs k \<noteq> None)"

definition Fields_getitem :: "Field list \<Rightarrow> string \<Rightarrow> py_error + Field" where
  "Fields_getitem fs k =
     (case Fields_lookup fs k of None \<Rightarrow> Inl (KeyError k) | Some f \<Rightarrow> Inr f)"

record HTTPResponse =
  status :: int
  response_fields :: "Field list"

datatype ShapeType =
    BLOB | BOOLEAN | STRING | TIMESTAMP | BYTE | SHORT | INTEGER | LONG | FLOAT | DOUBLE
  | BIG_INTEGER | BIG_DECIMAL | DOCUMENT | ENUM | INT_ENUM | LIST | MAP | STRUCTURE | UNION
  | SERVICE | RESOURCE | OPERATION

record Schema =
  shape_id :: ShapeID
  schema_shape_type :: ShapeType

record APIOperation =
  schema :: Schema

subsection \<open>AWSErrorIdentifier\<close>

definition HEADER_KEY :: string where
  "HEADER_KEY = ''x-amzn-errortype''"

text \<open>
  \<^verbatim>\<open>AWSErrorIdentifier.identify\<close>. The collaborator \<^verbatim>\<open>parse_error_code\<close> of
  \<^verbatim>\<open>smithy_aws_core.utils\<close> is a parameter; it returns a shape id or \<^verbatim>\<open>None\<close>, or
  raises.
\<close>

definition identify ::
  "(string \<Rightarrow> string \<Rightarrow> py_error + ShapeID option) \<Rightarrow> APIOperation \<Rightarrow> HTTPResponse
     \<Rightarrow> py_error + ShapeID option" where
  "identify parse_error_code operation response =
     (if \<not> Fields_contains (response_fields response) HEADER_KEY then Inr None
      else
        (case Fields_getitem (response_fields response) HEADER_KEY of
           Inl e \<Rightarrow> Inl e
         | Inr error_field \<Rightarrow>
             (let code = (if length (fld_values error_field) > 0
                          then Some (fld_values error_field ! 0) else None)
              in case code of
                   Some c \<Rightarrow> parse_error_code c (namespace (shape_id (schema operation)))
                 | None \<Rightarrow> Inr None)))"

subsection \<open>AWSJSONDocument\<close>

record JSONSettings =
  default_namespace :: "string option"

record AWSJSONDocument =
  json_value :: pyval
  shape_type :: ShapeType
  doc_schema :: Schema
  doc_settings :: JSONSettings

text \<open>How an f-string renders a member of the enumeration \<^verbatim>\<open>ShapeType\<close>.\<close>

fun ShapeType_name :: "ShapeType \<Rightarrow> string" where
  "ShapeType_name BLOB = ''BLOB''"
| "ShapeType_name BOOLEAN = ''BOOLEAN''"
| "ShapeType_name STRING = ''STRING''"
| "ShapeType_name TIMESTAMP = ''TIMESTAMP''"
| "ShapeType_name BYTE = ''BYTE''"
| "ShapeType_name SHORT = ''SHORT''"
| "ShapeType_name INTEGER = ''INTEGER''"
| "ShapeType_name LONG = ''LONG''"
| "ShapeType_name FLOAT = ''FLOAT''"
| "ShapeType_name DOUBLE = ''DOUBLE''"
| "ShapeType_name BIG_INTEGER = ''BIG_INTEGER''"
| "ShapeType_name BIG_DECIMAL = ''BIG_DECIMAL''"
| "ShapeType_name DOCUMENT = ''DOCUMENT''"
| "ShapeType_name ENUM = ''ENUM''"
| "ShapeType_name INT_ENUM = ''INT_ENUM''"
| "ShapeType_name LIST = ''LIST''"
| "ShapeType_name MAP = ''MAP''"
| "ShapeType_name STRUCTURE = ''STRUCTURE''"
| "ShapeType_name UNION = ''UNION''"
| "ShapeType_name SERVICE = ''SERVICE''"
| "ShapeType_name RESOURCE = ''RESOURCE''"
| "ShapeType_name OPERATION = ''OPERATION''"

definition ShapeType_str :: "ShapeType \<Rightarrow> string" where
  "ShapeType_str t = ''ShapeType.'' @ ShapeType_name t"

definition discriminator_message :: "ShapeType \<Rightarrow> string" where
  "discriminator_message t =
     ''Unable to parse discriminator for '' @ ShapeType_str t @ '' document.''"

text \<open>
  The property \<^verbatim>\<open>AWSJSONDocument.discriminator\<close>. The collaborator
  \<^verbatim>\<open>parse_document_discriminator\<close> of \<^verbatim>\<open>smithy_aws_core.utils\<close> is a parameter.
\<close>

definition discriminator ::
  "(AWSJSONDocument \<Rightarrow> string option \<Rightarrow> py_error + ShapeID option) \<Rightarrow> AWSJSONDocument
     \<Rightarrow> py_error + ShapeID" where
  "discriminator parse_document_discriminator self =
     (if shape_type self = STRUCTURE then Inr (shape_id (doc_schema self))
      else
        (case parse_document_discriminator self (default_namespace (doc_settings self)) of
           Inl e \<Rightarrow> Inl e
         | Inr None \<Rightarrow> Inl (DiscriminatorError (discriminator_message (shape_type self)))
         | Inr (Some parsed) \<Rightarrow> Inr parsed))"

section \<open>Construction of RestJson1Trait\<close>

lemma assert_all_str_ok: "assert_all_str vs = Inr () \<longleftrightarrow> (\<forall>v \<in> set vs. is_str v)"
  by (induction vs) auto

lemma is_str_PStr: "is_str v \<Longrightarrow> \<exists>s. v = PStr s"
  by (cases v) auto

lemma all_str_map: "\<forall>v \<in> set vs. is_str v \<Longrightarrow> \<exists>ss. vs = map PStr ss"
proof (induction vs)
  case Nil
  then show ?case by simp
next
  case (Cons v vs)
  then obtain ss where "vs = map PStr ss" by auto
  moreover from Cons.prems obtain s where "v = PStr s" using is_str_PStr by auto
  ultimately have "v # vs = map PStr (s # ss)" by simp
  then show ?case ..
qed

lemma init_mapping_success:
  assumes "RestJson1Trait_init (Doc (PDict kvs)) = Inr t"
  shows "is_Sequence (dict_get kvs ''http'' (PList [PStr ''http/1.1'']))
       \<and> (\<forall>v \<in> set (iter_seq (dict_get kvs ''http'' (PList [PStr ''http/1.1'']))). is_str v)
       \<and> http t = PTuple (iter_seq (dict_get kvs ''http'' (PList [PStr ''http/1.1''])))"
  using assms assert_all_str_ok[of "iter_seq (dict_get kvs ''http'' (PList [PStr ''http/1.1'']))"]
  by (auto simp: RestJson1Trait_init_def Trait_init_def or_empty_dict_def Let_def
      split: if_splits sum.splits)

lemma init_mapping_ok:
  assumes "str_seq (dict_get kvs ''http'' (PList [PStr ''http/1.1'']))"
      and "\<not> truthy (dict_get kvs ''eventStreamHttp'' PNone)
           \<or> str_seq (dict_get kvs ''eventStreamHttp'' PNone)"
  shows "RestJson1Trait_init (Doc (PDict kvs)) =
     Inr \<lparr>document_value = PDict kvs,
          http = PTuple (iter_seq (dict_get kvs ''http'' (PList [PStr ''http/1.1'']))),
          event_stream_http =
            (if truthy (dict_get kvs ''eventStreamHttp'' PNone)
             then PTuple (iter_seq (dict_get kvs ''eventStreamHttp'' PNone))
             else PTuple (iter_seq (dict_get kvs ''http'' (PList [PStr ''http/1.1'']))))\<rparr>"
proof -
  have h: "assert_all_str (iter_seq (dict_get kvs ''http'' (PList [PStr ''http/1.1'']))) = Inr ()"
    using assms(1) by (simp add: str_seq_def assert_all_str_ok list_all_iff)
  have e: "truthy (dict_get kvs ''eventStreamHttp'' PNone) \<Longrightarrow>
      is_Sequence (dict_get kvs ''eventStreamHttp'' PNone) \<and>
      assert_all_str (iter_seq (dict_get kvs ''eventStreamHttp'' PNone)) = Inr ()"
    using assms(2) by (simp add: str_seq_def assert_all_str_ok list_all_iff)
  have d: "or_empty_dict (Doc (PDict kvs)) = Doc (PDict kvs)"
    by (simp add: or_empty_dict_def)
  show ?thesis
    using assms(1) h e unfolding RestJson1Trait_init_def d
    by (simp add: Trait_init_def Let_def str_seq_def)
qed

lemma truthy_seq: "is_Sequence v \<Longrightarrow> truthy v \<longleftrightarrow> iter_seq v \<noteq> []"
  by (cases v) auto

text \<open>
  C6. Constructing the trait from \<^verbatim>\<open>None\<close> (an absent value) succeeds, and both
  \<^verbatim>\<open>http\<close> and \<^verbatim>\<open>event_stream_http\<close> are the one-element tuple \<^verbatim>\<open>("http/1.1",)\<close>.
\<close>

theorem RestJson1Trait_none_default:
  "RestJson1Trait_init (Doc PNone) =
     Inr \<lparr>document_value = PNone,
          http = PTuple [PStr ''http/1.1''],
          event_stream_http = PTuple [PStr ''http/1.1'']\<rparr>"
  by (simp add: RestJson1Trait_init_def Trait_init_def or_empty_dict_def dict_get_def Let_def)

text \<open>
  C5, as stated: whenever construction from a mapping succeeds, \<^verbatim>\<open>http\<close> is a
  non-empty sequence of strings. This fails: a mapping whose \<^verbatim>\<open>http\<close> entry is the
  empty list passes every assertion (the loop body never runs) and the stored tuple is
  empty.
\<close>

theorem RestJson1Trait_http_empty_counterexample:
  "RestJson1Trait_init (Doc (PDict [(''http'', PList [])])) =
     Inr \<lparr>document_value = PDict [(''http'', PList [])],
          http = PTuple [],
          event_stream_http = PTuple []\<rparr>"
  by (simp add: RestJson1Trait_init_def Trait_init_def or_empty_dict_def dict_get_def Let_def)

text \<open>
  C5, amended: whenever construction from a mapping succeeds, \<^verbatim>\<open>http\<close> is a tuple of
  strings; it is \<^verbatim>\<open>("http/1.1",)\<close> when the key \<^verbatim>\<open>http\<close> is absent; and it is empty
  exactly when the key \<^verbatim>\<open>http\<close> is present with an empty sequence.
\<close>

theorem RestJson1Trait_http_strings:
  assumes "RestJson1Trait_init (Doc (PDict kvs)) = Inr t"
  shows "(\<exists>ss. http t = PTuple (map PStr ss))
       \<and> (map_of kvs ''http'' = None \<longrightarrow> http t = PTuple [PStr ''http/1.1''])
       \<and> (http t = PTuple [] \<longleftrightarrow> (\<exists>v. map_of kvs ''http'' = Some v \<and> iter_seq v = []))"
proof -
  let ?hv = "dict_get kvs ''http'' (PList [PStr ''http/1.1''])"
  from init_mapping_success[OF assms]
  have strs: "\<forall>v \<in> set (iter_seq ?hv). is_str v" and ht: "http t = PTuple (iter_seq ?hv)"
    by simp_all
  from all_str_map[OF strs] ht have a: "\<exists>ss. http t = PTuple (map PStr ss)"
    by auto
  have b: "map_of kvs ''http'' = None \<longrightarrow> http t = PTuple [PStr ''http/1.1'']"
    using ht by (simp add: dict_get_def)
  have c: "http t = PTuple [] \<longleftrightarrow> (\<exists>v. map_of kvs ''http'' = Some v \<and> iter_seq v = [])"
    using ht by (cases "map_of kvs ''http''") (simp_all add: dict_get_def)
  from a b c show ?thesis by blast
qed

theorem RestJson1Trait_http_strings_witness:
  "RestJson1Trait_init (Doc (PDict [(''eventStreamHttp'', PList [PStr ''h2c''])])) =
     Inr \<lparr>document_value = PDict [(''eventStreamHttp'', PList [PStr ''h2c''])],
          http = PTuple [PStr ''http/1.1''],
          event_stream_http = PTuple [PStr ''h2c'']\<rparr>
   \<and> http \<lparr>document_value = PDict [(''eventStreamHttp'', PList [PStr ''h2c''])],
           http = PTuple [PStr ''http/1.1''],
           event_stream_http = PTuple [PStr ''h2c'']\<rparr> = PTuple [PStr ''http/1.1'']"
proof -
  have c: "RestJson1Trait_init (Doc (PDict [(''eventStreamHttp'', PList [PStr ''h2c''])])) =
     Inr \<lparr>document_value = PDict [(''eventStreamHttp'', PList [PStr ''h2c''])],
          http = PTuple [PStr ''http/1.1''],
          event_stream_http = PTuple [PStr ''h2c'']\<rparr>"
    by (simp add: RestJson1Trait_init_def Trait_init_def or_empty_dict_def dict_get_def Let_def)
  from RestJson1Trait_http_strings[OF c] c show ?thesis by simp
qed

text \<open>
  C7. For a mapping whose \<^verbatim>\<open>http\<close> and \<^verbatim>\<open>eventStreamHttp\<close> entries, where present,
  are sequences of strings, construction succeeds; \<^verbatim>\<open>http\<close> is the tuple of the
  \<^verbatim>\<open>http\<close> entry (of the default when absent); \<^verbatim>\<open>event_stream_http\<close> is the resolved
  \<^verbatim>\<open>http\<close> when \<^verbatim>\<open>eventStreamHttp\<close> is absent or empty, and otherwise the tuple of
  its own elements in order, whatever \<^verbatim>\<open>http\<close> is.
\<close>

theorem RestJson1Trait_event_stream_http:
  assumes "case map_of kvs ''http'' of None \<Rightarrow> True | Some h \<Rightarrow> str_seq h"
      and "case map_of kvs ''eventStreamHttp'' of None \<Rightarrow> True | Some e \<Rightarrow> str_seq e"
  shows "\<exists>t. RestJson1Trait_init (Doc (PDict kvs)) = Inr t
           \<and> http t = PTuple (iter_seq (dict_get kvs ''http'' (PList [PStr ''http/1.1''])))
           \<and> event_stream_http t =
               (case map_of kvs ''eventStreamHttp'' of
                  None \<Rightarrow> http t
                | Some e \<Rightarrow> if iter_seq e = [] then http t else PTuple (iter_seq e))"
proof -
  have h: "str_seq (dict_get kvs ''http'' (PList [PStr ''http/1.1'']))"
    using assms(1) by (cases "map_of kvs ''http''") (simp_all add: dict_get_def str_seq_def)
  have e: "\<not> truthy (dict_get kvs ''eventStreamHttp'' PNone)
           \<or> str_seq (dict_get kvs ''eventStreamHttp'' PNone)"
    using assms(2) by (cases "map_of kvs ''eventStreamHttp''") (simp_all add: dict_get_def)
  have t: "map_of kvs ''eventStreamHttp'' = Some x \<Longrightarrow> truthy x \<longleftrightarrow> iter_seq x \<noteq> []" for x
    using assms(2) by (simp add: str_seq_def truthy_seq)
  show ?thesis
    unfolding init_mapping_ok[OF h e]
    by (cases "map_of kvs ''eventStreamHttp''") (simp_all add: dict_get_def t)
qed

theorem RestJson1Trait_event_stream_http_witness:
  "RestJson1Trait_init
     (Doc (PDict [(''http'', PList [PStr ''h2'']), (''eventStreamHttp'', PList [PStr ''h2c''])])) =
     Inr \<lparr>document_value =
            PDict [(''http'', PList [PStr ''h2'']), (''eventStreamHttp'', PList [PStr ''h2c''])],
          http = PTuple [PStr ''h2''],
          event_stream_http = PTuple [PStr ''h2c'']\<rparr>
   \<and> RestJson1Trait_init (Doc (PDict [(''http'', PList [PStr ''h2''])])) =
     Inr \<lparr>document_value = PDict [(''http'', PList [PStr ''h2''])],
          http = PTuple [PStr ''h2''],
          event_stream_http = PTuple [PStr ''h2'']\<rparr>"
  using
    RestJson1Trait_event_stream_http
      [of "[(''http'', PList [PStr ''h2'']), (''eventStreamHttp'', PList [PStr ''h2c''])]"]
    RestJson1Trait_event_stream_http [of "[(''http'', PList [PStr ''h2''])]"]
  by (simp add: RestJson1Trait_init_def Trait_init_def or_empty_dict_def dict_get_def Let_def
      str_seq_def)

text \<open>
  C10. A bare string under \<^verbatim>\<open>http\<close> or \<^verbatim>\<open>eventStreamHttp\<close> passes the validation,
  since a string is a sequence whose elements are strings, and is stored as the tuple of
  its characters.
\<close>

theorem RestJson1Trait_bare_string:
  "(map_of kvs ''http'' = Some (PStr s) \<and> map_of kvs ''eventStreamHttp'' = None \<longrightarrow>
      RestJson1Trait_init (Doc (PDict kvs)) =
        Inr \<lparr>document_value = PDict kvs,
             http = PTuple (map (\<lambda>c. PStr [c]) s),
             event_stream_http = PTuple (map (\<lambda>c. PStr [c]) s)\<rparr>)
   \<and> (map_of kvs ''http'' = None \<and> map_of kvs ''eventStreamHttp'' = Some (PStr s) \<and> s \<noteq> [] \<longrightarrow>
      RestJson1Trait_init (Doc (PDict kvs)) =
        Inr \<lparr>document_value = PDict kvs,
             http = PTuple [PStr ''http/1.1''],
             event_stream_http = PTuple (map (\<lambda>c. PStr [c]) s)\<rparr>)"
proof -
  have all: "list_all is_str (map (\<lambda>c. PStr [c]) s)"
    by (induction s) simp_all
  have a: "RestJson1Trait_init (Doc (PDict kvs)) =
        Inr \<lparr>document_value = PDict kvs,
             http = PTuple (map (\<lambda>c. PStr [c]) s),
             event_stream_http = PTuple (map (\<lambda>c. PStr [c]) s)\<rparr>"
    if "map_of kvs ''http'' = Some (PStr s)" "map_of kvs ''eventStreamHttp'' = None"
    using that all init_mapping_ok[of kvs] by (simp add: dict_get_def str_seq_def)
  have b: "RestJson1Trait_init (Doc (PDict kvs)) =
        Inr \<lparr>document_value = PDict kvs,
             http = PTuple [PStr ''http/1.1''],
             event_stream_http = PTuple (map (\<lambda>c. PStr [c]) s)\<rparr>"
    if "map_of kvs ''http'' = None" "map_of kvs ''eventStreamHttp'' = Some (PStr s)" "s \<noteq> []"
    using that all init_mapping_ok[of kvs] by (simp add: dict_get_def str_seq_def)
  from a b show ?thesis by blast
qed

theorem RestJson1Trait_bare_string_witness:
  "RestJson1Trait_init (Doc (PDict [(''http'', PStr ''h2'')])) =
     Inr \<lparr>document_value = PDict [(''http'', PStr ''h2'')],
          http = PTuple [PStr ''h'', PStr ''2''],
          event_stream_http = PTuple [PStr ''h'', PStr ''2'']\<rparr>
   \<and> RestJson1Trait_init (Doc (PDict [(''eventStreamHttp'', PStr ''h2'')])) =
     Inr \<lparr>document_value = PDict [(''eventStreamHttp'', PStr ''h2'')],
          http = PTuple [PStr ''http/1.1''],
          event_stream_http = PTuple [PStr ''h'', PStr ''2'']\<rparr>"
  using RestJson1Trait_bare_string [of "[(''http'', PStr ''h2'')]" "''h2''"]
    RestJson1Trait_bare_string [of "[(''eventStreamHttp'', PStr ''h2'')]" "''h2''"]
  by simp

section \<open>Construction of SigV4Trait\<close>

lemma SigV4Trait_init_Doc: "SigV4Trait_init (Doc d) = Inr \<lparr>document_value = d\<rparr>"
  by (simp add: SigV4Trait_init_def Trait_init_def)

text \<open>
  C8. The claim is that construction of a \<^verbatim>\<open>SigV4Trait\<close> succeeds exactly when the
  backing value is a mapping with a string \<^verbatim>\<open>name\<close>, and that \<^verbatim>\<open>{}\<close> and
  \<^verbatim>\<open>"not-a-mapping"\<close> fail at construction. The code does construct
  \<^verbatim>\<open>{"name": "service"}\<close> with \<^verbatim>\<open>name == "service"\<close>, but it also constructs
  \<^verbatim>\<open>{}\<close>, \<^verbatim>\<open>"not-a-mapping"\<close> and \<^verbatim>\<open>{"name": 5}\<close>: each of them is rejected by
  the validation the class declares in \<^verbatim>\<open>__post_init__\<close>, and that validation is not
  run. On the first two the property \<^verbatim>\<open>name\<close> raises when it is read.
\<close>

theorem SigV4Trait_construction_unvalidated:
  "SigV4Trait_init (Doc (PDict [(''name'', PStr ''service'')])) =
     Inr \<lparr>document_value = PDict [(''name'', PStr ''service'')]\<rparr>
   \<and> SigV4Trait_name \<lparr>document_value = PDict [(''name'', PStr ''service'')]\<rparr> =
       Inr (PStr ''service'')
   \<and> SigV4Trait_init (Doc (PDict [])) = Inr \<lparr>document_value = PDict []\<rparr>
   \<and> SigV4Trait_post_init \<lparr>document_value = PDict []\<rparr> = Inl (KeyError ''name'')
   \<and> SigV4Trait_name \<lparr>document_value = PDict []\<rparr> = Inl (KeyError ''name'')
   \<and> SigV4Trait_init (Doc (PStr ''not-a-mapping'')) =
       Inr \<lparr>document_value = PStr ''not-a-mapping''\<rparr>
   \<and> SigV4Trait_post_init \<lparr>document_value = PStr ''not-a-mapping''\<rparr> = Inl AssertionError
   \<and> SigV4Trait_name \<lparr>document_value = PStr ''not-a-mapping''\<rparr> = Inl TypeError
   \<and> SigV4Trait_init (Doc (PDict [(''name'', PInt 5)])) =
       Inr \<lparr>document_value = PDict [(''name'', PInt 5)]\<rparr>
   \<and> SigV4Trait_post_init \<lparr>document_value = PDict [(''name'', PInt 5)]\<rparr> = Inl AssertionError
   \<and> SigV4Trait_name \<lparr>document_value = PDict [(''name'', PInt 5)]\<rparr> = Inr (PInt 5)"
  by (simp add: SigV4Trait_init_Doc SigV4Trait_post_init_def SigV4Trait_name_def)

section \<open>Generated equality, hash and representation of RestJson1Trait\<close>






section \<open>Error identification\<close>

lemma identify_present:
  assumes "Fields_lookup (response_fields response) HEADER_KEY = Some f"
  shows "identify pec operation response =
     (case fld_values f of
        [] \<Rightarrow> Inr None
      | c # cs \<Rightarrow> pec c (namespace (shape_id (schema operation))))"
  using assms
  by (cases "fld_values f")
     (simp_all add: identify_def Fields_contains_def Fields_getitem_def)

lemma identify_absent:
  assumes "Fields_lookup (response_fields response) HEADER_KEY = None"
  shows "identify pec operation response = Inr None"
  using assms by (simp add: identify_def Fields_contains_def)

text \<open>
  C1. When the response has the field \<^verbatim>\<open>x-amzn-errortype\<close> with at least one value,
  \<^verbatim>\<open>identify\<close> returns what the error-code parser returns for the first value and the
  namespace of the operation's schema id; in particular it returns \<^verbatim>\<open>None\<close> when the
  parser does, and raises nothing of its own.
\<close>

theorem identify_first_value:
  assumes "Fields_lookup (response_fields response) HEADER_KEY = Some f"
      and "fld_values f = c # cs"
  shows "identify pec operation response = pec c (namespace (shape_id (schema operation)))
       \<and> (pec c (namespace (shape_id (schema operation))) = Inr None \<longrightarrow>
            identify pec operation response = Inr None)"
  using identify_present[OF assms(1), of pec operation] assms(2) by simp

theorem identify_first_value_witness:
  "identify (\<lambda>raw ns. Inr (Some \<lparr>namespace = ns, name = raw\<rparr>))
     \<lparr>schema = \<lparr>shape_id = \<lparr>namespace = ''com.example'', name = ''GetThing''\<rparr>,
                schema_shape_type = OPERATION\<rparr>\<rparr>
     \<lparr>status = 400,
      response_fields =
        [\<lparr>fld_name = ''content-type'', fld_values = [''application/json'']\<rparr>,
         \<lparr>fld_name = ''X-Amzn-ErrorType'',
          fld_values = [''ValidationException'', ''Other'']\<rparr>]\<rparr>
   = Inr (Some \<lparr>namespace = ''com.example'', name = ''ValidationException''\<rparr>)
   \<and> identify (\<lambda>raw ns. Inr None)
     \<lparr>schema = \<lparr>shape_id = \<lparr>namespace = ''com.example'', name = ''GetThing''\<rparr>,
                schema_shape_type = OPERATION\<rparr>\<rparr>
     \<lparr>status = 400,
      response_fields = [\<lparr>fld_name = ''x-amzn-errortype'', fld_values = [''#'']\<rparr>]\<rparr>
   = Inr None"
  using
    identify_first_value
      [of "\<lparr>status = 400,
            response_fields =
              [\<lparr>fld_name = ''content-type'', fld_values = [''application/json'']\<rparr>,
               \<lparr>fld_name = ''X-Amzn-ErrorType'',
                fld_values = [''ValidationException'', ''Other'']\<rparr>]\<rparr>"
          "\<lparr>fld_name = ''X-Amzn-ErrorType'', fld_values = [''ValidationException'', ''Other'']\<rparr>"
          "''ValidationException''" "[''Other'']"
          "\<lambda>raw ns. Inr (Some \<lparr>namespace = ns, name = raw\<rparr>)"
          "\<lparr>schema = \<lparr>shape_id = \<lparr>namespace = ''com.example'', name = ''GetThing''\<rparr>,
                      schema_shape_type = OPERATION\<rparr>\<rparr>"]
    identify_first_value
      [of "\<lparr>status = 400,
            response_fields = [\<lparr>fld_name = ''x-amzn-errortype'', fld_values = [''#'']\<rparr>]\<rparr>"
          "\<lparr>fld_name = ''x-amzn-errortype'', fld_values = [''#'']\<rparr>"
          "''#''" "[]"
          "\<lambda>raw ns. Inr None"
          "\<lparr>schema = \<lparr>shape_id = \<lparr>namespace = ''com.example'', name = ''GetThing''\<rparr>,
                      schema_shape_type = OPERATION\<rparr>\<rparr>"]
  by (simp add: Fields_lookup_def normalize_field_name_def lower_char_def HEADER_KEY_def)

text \<open>
  C2. When the field \<^verbatim>\<open>x-amzn-errortype\<close> is absent, or present with an empty list
  of values, \<^verbatim>\<open>identify\<close> returns \<^verbatim>\<open>None\<close>; it raises nothing and does not call the
  parser.
\<close>

theorem identify_unknown:
  assumes "Fields_lookup (response_fields response) HEADER_KEY = None
         \<or> (\<exists>f. Fields_lookup (response_fields response) HEADER_KEY = Some f
                \<and> fld_values f = [])"
  shows "identify pec operation response = Inr None"
  using assms
proof
  assume "Fields_lookup (response_fields response) HEADER_KEY = None"
  then show ?thesis by (rule identify_absent)
next
  assume "\<exists>f. Fields_lookup (response_fields response) HEADER_KEY = Some f \<and> fld_values f = []"
  then obtain f where f: "Fields_lookup (response_fields response) HEADER_KEY = Some f"
    and e: "fld_values f = []" by blast
  from identify_present[OF f, of pec operation] e show ?thesis by simp
qed

theorem identify_unknown_witness:
  "identify (\<lambda>raw ns. Inl TypeError)
     \<lparr>schema = \<lparr>shape_id = \<lparr>namespace = ''com.example'', name = ''GetThing''\<rparr>,
                schema_shape_type = OPERATION\<rparr>\<rparr>
     \<lparr>status = 500,
      response_fields = [\<lparr>fld_name = ''content-type'', fld_values = [''application/json'']\<rparr>]\<rparr>
   = Inr None
   \<and> identify (\<lambda>raw ns. Inl TypeError)
     \<lparr>schema = \<lparr>shape_id = \<lparr>namespace = ''com.example'', name = ''GetThing''\<rparr>,
                schema_shape_type = OPERATION\<rparr>\<rparr>
     \<lparr>status = 500,
      response_fields = [\<lparr>fld_name = ''x-amzn-errortype'', fld_values = []\<rparr>]\<rparr>
   = Inr None"
  using
    identify_unknown
      [of "\<lparr>status = 500,
            response_fields =
              [\<lparr>fld_name = ''content-type'', fld_values = [''application/json'']\<rparr>]\<rparr>"
          "\<lambda>raw ns. Inl TypeError"
          "\<lparr>schema = \<lparr>shape_id = \<lparr>namespace = ''com.example'', name = ''GetThing''\<rparr>,
                      schema_shape_type = OPERATION\<rparr>\<rparr>"]
    identify_unknown
      [of "\<lparr>status = 500,
            response_fields = [\<lparr>fld_name = ''x-amzn-errortype'', fld_values = []\<rparr>]\<rparr>"
          "\<lambda>raw ns. Inl TypeError"
          "\<lparr>schema = \<lparr>shape_id = \<lparr>namespace = ''com.example'', name = ''GetThing''\<rparr>,
                      schema_shape_type = OPERATION\<rparr>\<rparr>"]
  by (simp add: Fields_lookup_def normalize_field_name_def lower_char_def HEADER_KEY_def)

section \<open>Discriminators\<close>

text \<open>
  C3. For a document whose shape type is \<^verbatim>\<open>STRUCTURE\<close>, the discriminator is the id of
  the document's schema, whatever the payload and whatever the discriminator parser would
  do; nothing is raised.
\<close>

theorem discriminator_structure:
  assumes "shape_type self = STRUCTURE"
  shows "discriminator pdd self = Inr (shape_id (doc_schema self))"
  using assms by (simp add: discriminator_def)

theorem discriminator_structure_witness:
  "discriminator (\<lambda>d ns. Inl TypeError)
     \<lparr>json_value = PDict [(''__type'', PStr ''other#Thing'')],
      shape_type = STRUCTURE,
      doc_schema = \<lparr>shape_id = \<lparr>namespace = ''com.example'', name = ''Widget''\<rparr>,
                    schema_shape_type = STRUCTURE\<rparr>,
      doc_settings = \<lparr>default_namespace = Some ''ns''\<rparr>\<rparr>
   = Inr \<lparr>namespace = ''com.example'', name = ''Widget''\<rparr>"
  using discriminator_structure
    [of "\<lparr>json_value = PDict [(''__type'', PStr ''other#Thing'')],
          shape_type = STRUCTURE,
          doc_schema = \<lparr>shape_id = \<lparr>namespace = ''com.example'', name = ''Widget''\<rparr>,
                        schema_shape_type = STRUCTURE\<rparr>,
          doc_settings = \<lparr>default_namespace = Some ''ns''\<rparr>\<rparr>"
        "\<lambda>d ns. Inl TypeError"]
  by simp

text \<open>
  C4. For a document whose shape type is not \<^verbatim>\<open>STRUCTURE\<close>: when the discriminator
  parser returns \<^verbatim>\<open>None\<close>, the access raises a \<^verbatim>\<open>DiscriminatorError\<close> whose message
  names the document's shape type; when the parser returns a shape id, that id is the
  result.
\<close>

theorem discriminator_polymorphic:
  assumes "shape_type self \<noteq> STRUCTURE"
  shows "(pdd self (default_namespace (doc_settings self)) = Inr None \<longrightarrow>
            discriminator pdd self =
              Inl (DiscriminatorError
                     (''Unable to parse discriminator for '' @ ShapeType_str (shape_type self)
                        @ '' document.'')))
       \<and> (\<forall>parsed. pdd self (default_namespace (doc_settings self)) = Inr (Some parsed) \<longrightarrow>
            discriminator pdd self = Inr parsed)"
  using assms by (simp add: discriminator_def discriminator_message_def)

theorem discriminator_polymorphic_witness:
  "discriminator (\<lambda>d ns. Inr None)
     \<lparr>json_value = PDict [(''a'', PInt 1)],
      shape_type = UNION,
      doc_schema = \<lparr>shape_id = \<lparr>namespace = ''com.example'', name = ''Choice''\<rparr>,
                    schema_shape_type = UNION\<rparr>,
      doc_settings = \<lparr>default_namespace = Some ''ns''\<rparr>\<rparr>
   = Inl (DiscriminatorError ''Unable to parse discriminator for ShapeType.UNION document.'')
   \<and> discriminator (\<lambda>d ns. Inr (Some \<lparr>namespace = the ns, name = ''T''\<rparr>))
     \<lparr>json_value = PDict [(''__type'', PStr ''T'')],
      shape_type = UNION,
      doc_schema = \<lparr>shape_id = \<lparr>namespace = ''com.example'', name = ''Choice''\<rparr>,
                    schema_shape_type = UNION\<rparr>,
      doc_settings = \<lparr>default_namespace = Some ''ns''\<rparr>\<rparr>
   = Inr \<lparr>namespace = ''ns'', name = ''T''\<rparr>"
  using
    discriminator_polymorphic
      [of "\<lparr>json_value = PDict [(''a'', PInt 1)],
            shape_type = UNION,
            doc_schema = \<lparr>shape_id = \<lparr>namespace = ''com.example'', name = ''Choice''\<rparr>,
                          schema_shape_type = UNION\<rparr>,
            doc_settings = \<lparr>default_namespace = Some ''ns''\<rparr>\<rparr>"
          "\<lambda>d ns. Inr None"]
    discriminator_polymorphic
      [of "\<lparr>json_value = PDict [(''__type'', PStr ''T'')],
            shape_type = UNION,
            doc_schema = \<lparr>shape_id = \<lparr>namespace = ''com.example'', name = ''Choice''\<rparr>,
                          schema_shape_type = UNION\<rparr>,
            doc_settings = \<lparr>default_namespace = Some ''ns''\<rparr>\<rparr>"
          "\<lambda>d ns. Inr (Some \<lparr>namespace = the ns, name = ''T''\<rparr>)"]
  by (simp add: ShapeType_str_def)

end
